theory Spec2Isabelle
  imports Main
begin

section \<open>JavaScript values and strings\<close>

text \<open>
  The contact server (server.js) reads four fields of a JSON body. A field holds a string,
  is absent (\<open>undefined\<close>), holds an array of values, or, after \<open>normalizeEmail\<close>, may
  hold \<open>false\<close>. Numbers, \<open>true\<close> and objects are left out: the chains turn them into
  strings as they do a string. A JavaScript string is a list of code units; the model uses
  the code units below 256, so the length of the list is the length validator.js counts.
\<close>

datatype jsval = Str string | JFalse | Undefined | Arr "jsval list"

definition is_array :: "jsval \<Rightarrow> bool" where
  "is_array v = (case v of Arr xs \<Rightarrow> True | _ \<Rightarrow> False)"

text \<open>\<open>Array.isArray(value) ? value : [value]\<close>.\<close>

definition elements :: "jsval \<Rightarrow> jsval list" where
  "elements v = (case v of Arr xs \<Rightarrow> xs | _ \<Rightarrow> [v])"

text \<open>\<open>Array.prototype.join\<close> with the separator \<open>,\<close> on the texts of the elements.\<close>

fun join_comma :: "string list \<Rightarrow> string" where
  "join_comma [] = []"
| "join_comma [x] = x"
| "join_comma (x # y # ys) = x @ '','' @ join_comma (y # ys)"

text \<open>A value inside a template literal, \<open>${v}\<close>, that is \<open>String(v)\<close>: an array is
  joined, an absent element of it giving the empty string.\<close>

fun interpolate :: "jsval \<Rightarrow> string" where
  "interpolate (Str s) = s"
| "interpolate JFalse = ''false''"
| "interpolate Undefined = ''undefined''"
| "interpolate (Arr xs) =
     join_comma (map (\<lambda>x. if x = Undefined then [] else interpolate x) xs)"

text \<open>express-validator turns a value into a string before it gives it to a validator or
  a sanitizer: \<open>undefined\<close> becomes the empty string, any other value \<open>v\<close> becomes
  \<open>String(v)\<close>.\<close>

fun toString :: "jsval \<Rightarrow> string" where
  "toString (Str s) = s"
| "toString JFalse = ''false''"
| "toString Undefined = []"
| "toString (Arr xs) = interpolate (Arr xs)"

text \<open>\<open>s.replace(/c/g, r)\<close> for a single character \<open>c\<close>.\<close>

definition replace_all :: "char \<Rightarrow> string \<Rightarrow> string \<Rightarrow> string" where
  "replace_all c r s = concat (map (\<lambda>x. if x = c then r else [x]) s)"

section \<open>validator.js: the sanitizers and validators of the chains\<close>

text \<open>
  Modelled from the spec: the fields are ``trimmed'', ``length in [2,100]'' and
  ``HTML-escaped'' by functions of the validator.js package, whose code is not under src/.
  \<open>trim\<close> removes the white space \<open>\s\<close> at both ends, \<open>isLength\<close> compares the
  number of characters with \<open>min\<close> (0 when not given) and \<open>max\<close>, \<open>escape\<close>
  replaces the eight characters \<open>& " ' < > / \ `\<close> by their entities, \<open>&\<close> first.
\<close>

definition whitespace :: "char \<Rightarrow> bool" where
  "whitespace c = (c \<in> set [CHR 0x09, CHR 0x0A, CHR 0x0B, CHR 0x0C, CHR 0x0D, CHR 0x20, CHR 0xA0])"

definition ltrim :: "string \<Rightarrow> string" where
  "ltrim s = dropWhile whitespace s"

definition rtrim :: "string \<Rightarrow> string" where
  "rtrim s = rev (dropWhile whitespace (rev s))"

definition trim :: "string \<Rightarrow> string" where
  "trim s = rtrim (ltrim s)"

definition isLength :: "nat \<Rightarrow> nat option \<Rightarrow> string \<Rightarrow> bool" where
  "isLength mn mx s =
     (mn \<le> length s \<and> (case mx of None \<Rightarrow> True | Some m \<Rightarrow> length s \<le> m))"

definition escape :: "string \<Rightarrow> string" where
  "escape s =
     replace_all (CHR 0x60) ''&#96;''
      (replace_all (CHR 0x5C) ''&#x5C;''
        (replace_all CHR ''/'' ''&#x2F;''
          (replace_all CHR ''>'' ''&gt;''
            (replace_all CHR ''<'' ''&lt;''
              (replace_all (CHR 0x27) ''&#x27;''
                (replace_all (CHR 0x22) ''&quot;''
                  (replace_all CHR ''&'' ''&amp;'' s)))))))"

text \<open>
  \<open>isEmail\<close> and \<open>normalizeEmail\<close> of validator.js are not under src/ either and the spec
  says no more of them than ``valid email syntax, normalized to canonical form''; they are
  parameters of the model. \<open>normalizeEmail\<close> returns a string or \<open>false\<close>.
\<close>

record validator_js =
  isEmail :: "string \<Rightarrow> bool"
  normalizeEmail :: "string \<Rightarrow> jsval"

section \<open>express-validator: running a chain\<close>

text \<open>
  A chain \<open>body(field).a().b().c()\<close> is the list of its items in the order written.
  The runner goes through the items on the current value of the field: a sanitizer replaces
  the value, a validator that fails adds an error entry and the chain goes on (no item of
  the chains of server.js is \<open>bail\<close>). When the value is an array, a sanitizer is applied
  to each element and the value stays an array, and a validator checks each element and
  adds an entry for each one that fails; an empty array fails no validator.
  \<open>validationResult(req).array()\<close> is the list of the entries of all chains in the order
  the chains ran.
\<close>

datatype chain_item = Sanitizer "string \<Rightarrow> jsval" | Validator "string \<Rightarrow> bool"

record validation_error =
  err_value :: jsval
  err_msg :: string
  err_param :: string
  err_location :: string

type_synonym req_body = "string \<Rightarrow> jsval"

text \<open>The entry a failing validator records for a value of a field.\<close>

definition entry :: "string \<Rightarrow> jsval \<Rightarrow> validation_error" where
  "entry field v = \<lparr>err_value = v, err_msg = ''Invalid value'', err_param = field, err_location = ''body''\<rparr>"

definition sanitize :: "(string \<Rightarrow> jsval) \<Rightarrow> jsval \<Rightarrow> jsval" where
  "sanitize f v =
     (case v of Arr xs \<Rightarrow> Arr (map (\<lambda>x. f (toString x)) xs) | _ \<Rightarrow> f (toString v))"

definition validate :: "string \<Rightarrow> (string \<Rightarrow> bool) \<Rightarrow> jsval \<Rightarrow> validation_error list" where
  "validate field p v = map (entry field) (filter (\<lambda>x. \<not> p (toString x)) (elements v))"

fun run_chain :: "string \<Rightarrow> chain_item list \<Rightarrow> jsval \<Rightarrow> jsval \<times> validation_error list" where
  "run_chain field [] v = (v, [])"
| "run_chain field (Sanitizer f # items) v = run_chain field items (sanitize f v)"
| "run_chain field (Validator p # items) v =
     (let (v', es) = run_chain field items v
      in (v', validate field p v @ es))"

fun run_chains :: "(string \<times> chain_item list) list \<Rightarrow> req_body \<Rightarrow> req_body \<times> validation_error list" where
  "run_chains [] b = (b, [])"
| "run_chains ((field, items) # cs) b =
     (let (v, es) = run_chain field items (b field);
          (b', es') = run_chains cs (b(field := v))
      in (b', es @ es'))"

text \<open>Lines 58-63 of server.js.\<close>

definition contactValidation :: "validator_js \<Rightarrow> (string \<times> chain_item list) list" where
  "contactValidation lib =
     [(''name'', [Sanitizer (\<lambda>s. Str (trim s)), Validator (isLength 2 (Some 100)),
                  Sanitizer (\<lambda>s. Str (escape s))]),
      (''email'', [Validator (isEmail lib), Sanitizer (normalizeEmail lib)]),
      (''subject'', [Sanitizer (\<lambda>s. Str (trim s)), Validator (isLength 0 (Some 200)),
                     Sanitizer (\<lambda>s. Str (escape s))]),
      (''message'', [Sanitizer (\<lambda>s. Str (trim s)), Validator (isLength 0 (Some 2000)),
                     Sanitizer (\<lambda>s. Str (escape s))])]"

section \<open>The POST /contact handler\<close>

record mail =
  mail_from :: string
  mail_to :: string
  replyTo :: jsval
  mail_subject :: string
  html :: string
  mail_headers :: "(string \<times> string) list"

datatype json = JString string | JBool bool

datatype response_body =
    ErrorsBody "validation_error list"
  | JsonBody "(string \<times> json) list"
  | TextBody string
  | NoBody
  | DefaultPage

text \<open>\<open>NoBody\<close> is the empty body of the answer to a preflight or to a HEAD request,
  \<open>DefaultPage\<close> the page Express sends when no route matches.\<close>

record response =
  status :: nat
  body :: response_body

text \<open>What the handler catches: the error the transport rejected the send with, or the
  TypeError of \<open>message.replace\<close> (line 94) on a value that is not a string, as an array
  is; the template is evaluated before \<open>sendMail\<close> is called.\<close>

datatype 'e thrown = TransportError 'e | TypeError

text \<open>
  The environment of the process: validator.js, \<open>process.env.EMAIL_USER\<close>, and the mail
  transport. \<open>sendMail\<close> returns \<open>None\<close> when the provider accepts the message and
  \<open>Some e\<close> when the promise rejects with \<open>e\<close>.
\<close>

record 'e env =
  validator :: validator_js
  EMAIL_USER :: jsval
  sendMail :: "mail \<Rightarrow> 'e option"

text \<open>The clock: \<open>Date.now()\<close> in milliseconds, \<open>new Date().toLocaleString()\<close> and
  \<open>new Date().toISOString()\<close> at the time of the request.\<close>

record clock =
  now_ms :: nat
  now_locale :: string
  now_iso :: string

record 'e outcome =
  response_of :: response
  sends :: "mail list"
  console :: "(string \<times> 'e thrown) list"

definition nl :: string where
  "nl = [CHR 0x0A]"

text \<open>The object given to \<open>transporter.sendMail\<close> (lines 83-105), for a message that is a
  string.\<close>

definition compose_mail :: "'e env \<Rightarrow> clock \<Rightarrow> req_body \<Rightarrow> string \<Rightarrow> mail" where
  \<open>compose_mail e clk b message =
     \<lparr>mail_from = ''"Gussy Contact" <'' @ interpolate (EMAIL_USER e) @ ''>'',
      mail_to = ''saadnadeem962@gmail.com'',
      replyTo = b ''email'',
      mail_subject = ''New Contact: '' @ interpolate (b ''subject''),
      html = nl @
        ''          <div style="font-family: Arial, sans-serif;">'' @ nl @
        ''            <h2>Contact Form Submission</h2>'' @ nl @
        ''            <p><strong>From:</strong> '' @ interpolate (b ''name'') @ '' ('' @
                       interpolate (b ''email'') @ '')</p>'' @ nl @
        ''            <p><strong>Subject:</strong> '' @ interpolate (b ''subject'') @ ''</p>'' @ nl @
        ''            <div style="margin-top: 20px; padding: 10px; border: 1px solid #eee;">'' @ nl @
        ''              '' @ replace_all (CHR 0x0A) ''<br>'' message @ nl @
        ''            </div>'' @ nl @
        ''            <p style="color: #666; margin-top: 20px;">'' @ nl @
        ''              Sent via Gussy Contact Form at '' @ now_locale clk @ nl @
        ''            </p>'' @ nl @
        ''          </div>'' @ nl @
        ''        '',
      mail_headers = [(''X-Priority'', ''1''), (''X-Mailer'', ''Gussy Contact Server'')]\<rparr>\<close>

definition validation_failed :: "validation_error list \<Rightarrow> response" where
  "validation_failed errors = \<lparr>status = 400, body = ErrorsBody errors\<rparr>"

definition send_succeeded :: response where
  "send_succeeded =
     \<lparr>status = 200,
      body = JsonBody [(''success'', JBool True),
                       (''message'', JString ''Your message has been sent successfully!'')]\<rparr>"

definition send_failed :: response where
  "send_failed =
     \<lparr>status = 500,
      body = JsonBody [(''success'', JBool False),
                       (''error'', JString ''Message failed to send. Please try again later.'')]\<rparr>"

text \<open>Lines 72-119: the handler, on the body the chains left in \<open>req.body\<close> and the
  errors they recorded.\<close>

definition contact_handler ::
  "'e env \<Rightarrow> clock \<Rightarrow> req_body \<Rightarrow> validation_error list \<Rightarrow> 'e outcome" where
  "contact_handler e clk b errors =
     (if errors \<noteq> [] then
        \<lparr>response_of = validation_failed errors, sends = [], console = []\<rparr>
      else
        (case b ''message'' of
           Str message \<Rightarrow>
             (let m = compose_mail e clk b message in
              case sendMail e m of
                None \<Rightarrow> \<lparr>response_of = send_succeeded, sends = [m], console = []\<rparr>
              | Some err \<Rightarrow>
                  \<lparr>response_of = send_failed, sends = [m],
                   console = [(''Email send error:'', TransportError err)]\<rparr>)
         | _ \<Rightarrow>
             \<lparr>response_of = send_failed, sends = [],
              console = [(''Email send error:'', TypeError)]\<rparr>))"

text \<open>The validation chains followed by the handler, as the route runs them on a parsed
  body.\<close>

definition post_contact :: "'e env \<Rightarrow> clock \<Rightarrow> req_body \<Rightarrow> 'e outcome" where
  "post_contact e clk raw =
     (let (b, errors) = run_chains (contactValidation (validator e)) raw
      in contact_handler e clk b errors)"

text \<open>What the validator component reports for a raw body: the sanitized body left in
  \<open>req.body\<close>, the error list, and whether one field passes the rule of its chain (its
  chain records no error on the field's value).\<close>

definition sanitized :: "validator_js \<Rightarrow> req_body \<Rightarrow> req_body" where
  "sanitized lib b = fst (run_chains (contactValidation lib) b)"

definition validationResult :: "validator_js \<Rightarrow> req_body \<Rightarrow> validation_error list" where
  "validationResult lib b = snd (run_chains (contactValidation lib) b)"

definition field_passes :: "validator_js \<Rightarrow> req_body \<Rightarrow> string \<Rightarrow> bool" where
  "field_passes lib b field =
     (case map_of (contactValidation lib) field of
        None \<Rightarrow> True
      | Some items \<Rightarrow> snd (run_chain field items (b field)) = [])"

definition all_fields_pass :: "validator_js \<Rightarrow> req_body \<Rightarrow> bool" where
  "all_fields_pass lib b =
     (field_passes lib b ''name'' \<and> field_passes lib b ''email'' \<and>
      field_passes lib b ''subject'' \<and> field_passes lib b ''message'')"

text \<open>The mail the handler composes for a raw body.\<close>

definition submission_mail :: "'e env \<Rightarrow> clock \<Rightarrow> req_body \<Rightarrow> mail" where
  "submission_mail e clk raw =
     compose_mail e clk (sanitized (validator e) raw)
       (toString (sanitized (validator e) raw ''message''))"

section \<open>The health check and the fallback error handler\<close>

text \<open>Lines 125-131.\<close>

definition health :: "clock \<Rightarrow> response" where
  "health clk =
     \<lparr>status = 200,
      body = JsonBody [(''status'', JString ''healthy''),
                       (''service'', JString ''Gussy Contact API''),
                       (''timestamp'', JString (now_iso clk))]\<rparr>"

text \<open>Lines 136-142: the error middleware answers every error passed to \<open>next\<close>.\<close>

definition fallback_error :: response where
  "fallback_error =
     \<lparr>status = 500,
      body = JsonBody [(''success'', JBool False),
                       (''error'', JString ''Internal Server Error'')]\<rparr>"

section \<open>Request admission: rate limit, origin, payload size\<close>

datatype http_method = GET | HEAD | POST | OPTIONS | OtherMethod

text \<open>
  What the URL of a request matches: \<open>ContactPath\<close> the route path \<open>/contact\<close> of line 69,
  \<open>ContactSubPath\<close> another path under the prefix \<open>/contact\<close> (as \<open>/contact/zzz\<close>),
  \<open>RootPath\<close> the route path \<open>/\<close>. A middleware mounted with \<open>app.use('/contact', ...)\<close>
  runs for every path under that prefix, a route only for its own path.
\<close>

datatype route = ContactPath | ContactSubPath | RootPath | OtherPath

definition under_contact :: "route \<Rightarrow> bool" where
  "under_contact p = (p = ContactPath \<or> p = ContactSubPath)"

text \<open>
  A request: \<open>body_bytes\<close> is the size of the body, \<open>body_json\<close> the object
  \<open>JSON.parse\<close> gives for its text (\<open>None\<close> when the text is not JSON),
  \<open>json_content_type\<close> whether the Content-Type is \<open>application/json\<close>.
\<close>

record request =
  req_method :: http_method
  req_path :: route
  req_ip :: string
  req_origin :: "string option"
  json_content_type :: bool
  body_bytes :: nat
  body_json :: "req_body option"

subsection \<open>Rate limiting (lines 19-24)\<close>

text \<open>
  Modelled from the spec: express-rate-limit is not under src/. It ``maintains a per-client
  counter keyed by client network identity, with a window of 15 minutes and a ceiling of
  100 requests; once exceeded, responds immediately with a 429-equivalent status and a
  fixed human-readable message, without invoking downstream handlers''. The counter of a
  client starts a window at the client's first request and is reset once the window is
  over; every request is counted, also a rejected one.
\<close>

record limiter_entry =
  totalHits :: nat
  resetTime :: nat

type_synonym limiter_store = "string \<Rightarrow> limiter_entry option"

definition windowMs :: nat where
  "windowMs = 15 * 60 * 1000"

definition limiter_max :: nat where
  "limiter_max = 100"

definition too_many_requests :: response where
  "too_many_requests =
     \<lparr>status = 429, body = TextBody ''Too many requests. Please try again later.''\<rparr>"

definition increment :: "limiter_store \<Rightarrow> string \<Rightarrow> nat \<Rightarrow> limiter_store \<times> nat" where
  "increment st key now =
     (let fresh = \<lparr>totalHits = 1, resetTime = now + windowMs\<rparr>;
          en = (case st key of
                  None \<Rightarrow> fresh
                | Some old \<Rightarrow>
                    if resetTime old \<le> now then fresh
                    else old\<lparr>totalHits := totalHits old + 1\<rparr>)
      in (st(key \<mapsto> en), totalHits en))"

text \<open>\<open>Some response\<close>: the limiter answered; \<open>None\<close>: it called \<open>next()\<close>.\<close>

definition limiter :: "limiter_store \<Rightarrow> string \<Rightarrow> nat \<Rightarrow> limiter_store \<times> response option" where
  "limiter st key now =
     (let (st', hits) = increment st key now
      in (st', if limiter_max < hits then Some too_many_requests else None))"

subsection \<open>Origin restriction (lines 27-36)\<close>

text \<open>
  Modelled from the spec: the cors package is not under src/. It ``compares the request's
  declared origin against a configured allow-list''. The \<open>origin\<close> option is a string
  (\<open>'*'\<close> allows any origin, another string is a fixed origin) or an array, against
  whose entries the request's Origin header is compared; the header
  Access-Control-Allow-Origin is set to the request's origin when the comparison
  succeeds and is not set otherwise. The middleware never ends a request other than a
  preflight (OPTIONS), which it answers with 204.
\<close>

datatype origin_option = OriginString string | OriginArray "string list"

fun isOriginAllowed :: "string option \<Rightarrow> origin_option \<Rightarrow> bool" where
  "isOriginAllowed origin (OriginArray allowed) = list_ex (\<lambda>a. origin = Some a) allowed"
| "isOriginAllowed origin (OriginString allowed) = (origin = Some allowed)"

definition configureOrigin :: "origin_option \<Rightarrow> string option \<Rightarrow> string option" where
  "configureOrigin opt origin =
     (case opt of
        OriginString s \<Rightarrow> Some s
      | OriginArray allowed \<Rightarrow> if isOriginAllowed origin opt then origin else None)"

definition allowedOrigins :: "string list" where
  "allowedOrigins = [''*'']"

subsection \<open>Payload bound (line 70)\<close>

text \<open>
  Modelled from the spec: \<open>express.json\<close> is not under src/. It ``rejects request bodies
  exceeding 10 KB before they reach the validator''; the content type ``must be JSON'':
  a body of another content type, or an empty one, is not read and \<open>req.body\<close> is the
  empty object. An error (body too large, text that is not JSON) is passed to \<open>next\<close>.
\<close>

datatype body_error = PayloadTooLarge | ParseFailed

definition json_limit :: nat where
  "json_limit = 10 * 1024"

definition express_json :: "request \<Rightarrow> body_error + req_body" where
  "express_json r =
     (if \<not> json_content_type r \<or> body_bytes r = 0 then Inr (\<lambda>_. Undefined)
      else if json_limit < body_bytes r then Inl PayloadTooLarge
      else case body_json r of None \<Rightarrow> Inl ParseFailed | Some b \<Rightarrow> Inr b)"

section \<open>The application\<close>

text \<open>
  The middleware and routes in the order server.js registers them: helmet (headers only),
  the limiter on the prefix /contact, cors, POST /contact (JSON parser, validation chains,
  handler), GET / (which Express also runs for HEAD /, sending no body), Express's default
  404, and the error middleware. \<open>ran\<close> lists the stages that ran for a request;
  \<open>allow_origin\<close> is the Access-Control-Allow-Origin header.
\<close>

datatype stage =
  Helmet | Limiter | Cors | JsonParser | Validation | ContactHandler | HealthHandler
  | NotFound | ErrorHandler

datatype 'e logged = HandlerLog "(string \<times> 'e thrown)" | ErrorStack body_error

record 'e served =
  reply :: response
  allow_origin :: "string option"
  mails :: "mail list"
  logs :: "'e logged list"
  ran :: "stage list"

definition contact_route :: "'e env \<Rightarrow> clock \<Rightarrow> request \<Rightarrow> string option \<Rightarrow> stage list \<Rightarrow> 'e served" where
  "contact_route e clk r hdr pre =
     (case express_json r of
        Inl err \<Rightarrow>
          \<lparr>reply = fallback_error, allow_origin = hdr, mails = [],
           logs = [ErrorStack err], ran = pre @ [JsonParser, ErrorHandler]\<rparr>
      | Inr b \<Rightarrow>
          (let out = post_contact e clk b in
           \<lparr>reply = response_of out, allow_origin = hdr, mails = sends out,
            logs = map HandlerLog (console out),
            ran = pre @ [JsonParser, Validation, ContactHandler]\<rparr>))"

definition app :: "'e env \<Rightarrow> limiter_store \<Rightarrow> clock \<Rightarrow> request \<Rightarrow> 'e served \<times> limiter_store" where
  "app e st clk r =
     (let (st', limited) =
            (if under_contact (req_path r) then limiter st (req_ip r) (now_ms clk)
             else (st, None));
          pre = (if under_contact (req_path r) then [Helmet, Limiter] else [Helmet])
      in case limited of
           Some resp \<Rightarrow>
             (\<lparr>reply = resp, allow_origin = None, mails = [], logs = [], ran = pre\<rparr>, st')
         | None \<Rightarrow>
             (let hdr = configureOrigin (OriginArray allowedOrigins) (req_origin r) in
              if req_method r = OPTIONS then
                (\<lparr>reply = \<lparr>status = 204, body = NoBody\<rparr>, allow_origin = hdr, mails = [],
                  logs = [], ran = pre @ [Cors]\<rparr>, st')
              else if req_method r = POST \<and> req_path r = ContactPath then
                (contact_route e clk r hdr (pre @ [Cors]), st')
              else if req_method r = GET \<and> req_path r = RootPath then
                (\<lparr>reply = health clk, allow_origin = hdr, mails = [], logs = [],
                  ran = pre @ [Cors, HealthHandler]\<rparr>, st')
              else if req_method r = HEAD \<and> req_path r = RootPath then
                (\<lparr>reply = \<lparr>status = 200, body = NoBody\<rparr>, allow_origin = hdr, mails = [],
                  logs = [], ran = pre @ [Cors, HealthHandler]\<rparr>, st')
              else
                (\<lparr>reply = \<lparr>status = 404, body = DefaultPage\<rparr>, allow_origin = hdr, mails = [],
                  logs = [], ran = pre @ [Cors, NotFound]\<rparr>, st')))"

text \<open>Requests served one after the other, each at its own time, on the limiter's store.\<close>

fun serve :: "'e env \<Rightarrow> limiter_store \<Rightarrow> (clock \<times> request) list \<Rightarrow> 'e served list" where
  "serve e st [] = []"
| "serve e st ((clk, r) # rs) = (let (out, st') = app e st clk r in out # serve e st' rs)"

section \<open>A concrete environment for the examples\<close>

text \<open>
  The closed examples below need an instance of the parameters. \<open>toLowerCase\<close> is
  JavaScript's on code units below 256. \<open>normalizeEmail_other\<close> is what validator.js's
  \<open>normalizeEmail\<close> does, with its default options, to an address whose domain is none of
  the providers it treats specially: the domain (the part after the last \<open>@\<close>) and the
  local part are lower-cased. \<open>sample_validator\<close> fixes \<open>isEmail\<close> on the strings the
  examples use: validator.js accepts \<open>ann@example.org\<close> and \<open>Ann@Example.org\<close>, and rejects
  the empty string and \<open>nope\<close>.
\<close>

definition toLowerCase :: "string \<Rightarrow> string" where
  "toLowerCase s =
     map (\<lambda>c. let n = of_char c :: nat
              in if (65 \<le> n \<and> n \<le> 90) \<or> (192 \<le> n \<and> n \<le> 222 \<and> n \<noteq> 215)
                 then char_of (n + 32) else c) s"

definition normalizeEmail_other :: "string \<Rightarrow> jsval" where
  "normalizeEmail_other email =
     (let r = rev email;
          domain = rev (takeWhile (\<lambda>c. c \<noteq> CHR ''@'') r);
          user = rev (drop 1 (dropWhile (\<lambda>c. c \<noteq> CHR ''@'') r))
      in Str (toLowerCase user @ ''@'' @ toLowerCase domain))"

definition sample_validator :: validator_js where
  "sample_validator =
     \<lparr>isEmail = (\<lambda>s. s \<in> set [''ann@example.org'', ''Ann@Example.org'']),
      normalizeEmail = normalizeEmail_other\<rparr>"

definition sample_env :: "string option \<Rightarrow> string env" where
  "sample_env result =
     \<lparr>validator = sample_validator, EMAIL_USER = Str ''gussy@gmail.com'',
      sendMail = (\<lambda>_. result)\<rparr>"

definition sample_clock :: clock where
  "sample_clock =
     \<lparr>now_ms = 0, now_locale = ''11/2/2026, 10:00:00 AM'', now_iso = ''2026-11-02T10:00:00.000Z''\<rparr>"

definition sample_body :: "string \<Rightarrow> string \<Rightarrow> req_body" where
  "sample_body n em =
     (\<lambda>_. Undefined)(''name'' := Str n, ''email'' := Str em, ''subject'' := Str ''Hello'',
                      ''message'' := Str ''Hi there'')"

text \<open>The requests and bodies of the examples.\<close>

definition sample_request :: request where
  "sample_request =
     \<lparr>req_method = POST, req_path = ContactPath, req_ip = ''203.0.113.7'',
      req_origin = Some ''https://example.com'', json_content_type = True,
      body_bytes = 120, body_json = Some (sample_body ''Ann'' ''ann@example.org'')\<rparr>"

definition health_request :: request where
  "health_request =
     \<lparr>req_method = GET, req_path = RootPath, req_ip = ''203.0.113.7'',
      req_origin = None, json_content_type = False, body_bytes = 0, body_json = None\<rparr>"

definition oversized_text_request :: request where
  "oversized_text_request =
     \<lparr>req_method = POST, req_path = ContactPath, req_ip = ''203.0.113.7'',
      req_origin = None, json_content_type = False,
      body_bytes = 20000, body_json = None\<rparr>"


definition burst :: "(clock \<times> request) list" where
  "burst = replicate 101 (sample_clock, sample_request)"

text \<open>A body whose message is an array; a body of \<open>&\<close> characters at the caps of the
  rules; a request to a path under /contact that is not the route's, and 100 of them
  followed by one POST /contact.\<close>

definition array_body :: req_body where
  "array_body = (sample_body ''Ann'' ''ann@example.org'')(''message'' := Arr [Str ''Hi there''])"

definition amp_body :: "string \<Rightarrow> req_body" where
  "amp_body em =
     (\<lambda>_. Undefined)(''name'' := Str (replicate 100 CHR ''&''), ''email'' := Str em,
                      ''subject'' := Str (replicate 200 CHR ''&''),
                      ''message'' := Str (replicate 2000 CHR ''&''))"

definition subpath_request :: request where
  "subpath_request =
     \<lparr>req_method = GET, req_path = ContactSubPath, req_ip = ''203.0.113.7'',
      req_origin = None, json_content_type = False, body_bytes = 0, body_json = None\<rparr>"

definition subpath_burst :: "(clock \<times> request) list" where
  "subpath_burst = replicate 100 (sample_clock, subpath_request) @ [(sample_clock, sample_request)]"

section \<open>Notions used to state the claim on the rate limit\<close>

text \<open>
  \<open>from_client c x\<close>: the request \<open>x\<close> is one by the client \<open>c\<close> to a path under
  the prefix /contact, that is one the limiter counts for \<open>c\<close>.
  \<open>counted st c t0 n\<close>: in the store \<open>st\<close> the client \<open>c\<close> has \<open>n\<close> requests
  counted in a window that covers \<open>[t0, t0 + windowMs)\<close>; with \<open>n = 0\<close>, it has no
  window open at \<open>t0\<close>.
\<close>

definition from_client :: "string \<Rightarrow> clock \<times> request \<Rightarrow> bool" where
  "from_client c x = (under_contact (req_path (snd x)) \<and> req_ip (snd x) = c)"

definition counted :: "limiter_store \<Rightarrow> string \<Rightarrow> nat \<Rightarrow> nat \<Rightarrow> bool" where
  "counted st c t0 n =
     (case st c of
        None \<Rightarrow> n = 0
      | Some en \<Rightarrow>
          if resetTime en \<le> t0 then n = 0
          else totalHits en = n \<and> t0 + windowMs \<le> resetTime en)"

section \<open>Facts about the validation chains\<close>

lemma normalize_sample: "normalizeEmail_other ''Ann@Example.org'' = Str ''ann@example.org''"
  by code_simp

lemma normalize_sample2: "normalizeEmail_other ''ann@example.org'' = Str ''ann@example.org''"
  by code_simp

lemma sanitize_scalar: "\<not> is_array v \<Longrightarrow> sanitize f v = f (toString v)"
  by (cases v) (simp_all add: sanitize_def is_array_def)

lemma sanitize_twice:
  "sanitize (\<lambda>s. Str (g s)) (sanitize (\<lambda>s. Str (f s)) v) = sanitize (\<lambda>s. Str (g (f s))) v"
  by (cases v) (simp_all add: sanitize_def)

lemma is_array_sanitize_Str: "is_array (sanitize (\<lambda>s. Str (f s)) v) = is_array v"
  by (cases v) (simp_all add: sanitize_def is_array_def)

lemma validate_scalar:
  "\<not> is_array v \<Longrightarrow> validate field p v = (if p (toString v) then [] else [entry field v])"
  by (cases v) (simp_all add: validate_def elements_def is_array_def)

lemma validate_Nil: "validate field p v = [] \<longleftrightarrow> (\<forall>x \<in> set (elements v). p (toString x))"
  by (simp add: validate_def filter_empty_conv)

lemma validate_params: "err_param ` set (validate field p v) = (if validate field p v = [] then {} else {field})"
  by (simp add: validate_def entry_def image_image image_constant_conv filter_empty_conv)

lemma validate_after_trim_Nil:
  "validate field p (sanitize (\<lambda>s. Str (trim s)) v) = [] \<longleftrightarrow>
     (\<forall>x \<in> set (elements v). p (trim (toString x)))"
  by (cases v) (simp_all add: validate_Nil sanitize_def elements_def)

lemma sanitized_eq:
  "sanitized lib b =
     b(''name'' := sanitize (\<lambda>s. Str (escape (trim s))) (b ''name''),
       ''email'' := sanitize (normalizeEmail lib) (b ''email''),
       ''subject'' := sanitize (\<lambda>s. Str (escape (trim s))) (b ''subject''),
       ''message'' := sanitize (\<lambda>s. Str (escape (trim s))) (b ''message''))"
  by (simp add: sanitized_def contactValidation_def Let_def sanitize_twice split: prod.splits)

lemma validationResult_eq:
  "validationResult lib b =
     validate ''name'' (isLength 2 (Some 100)) (sanitize (\<lambda>s. Str (trim s)) (b ''name'')) @
     validate ''email'' (isEmail lib) (b ''email'') @
     validate ''subject'' (isLength 0 (Some 200)) (sanitize (\<lambda>s. Str (trim s)) (b ''subject'')) @
     validate ''message'' (isLength 0 (Some 2000)) (sanitize (\<lambda>s. Str (trim s)) (b ''message''))"
  by (simp add: validationResult_def contactValidation_def Let_def split: prod.splits)

lemma name_errors:
  "field_passes lib b ''name'' \<longleftrightarrow>
     validate ''name'' (isLength 2 (Some 100)) (sanitize (\<lambda>s. Str (trim s)) (b ''name'')) = []"
  by (simp add: field_passes_def contactValidation_def)

lemma email_errors:
  "field_passes lib b ''email'' \<longleftrightarrow> validate ''email'' (isEmail lib) (b ''email'') = []"
  by (simp add: field_passes_def contactValidation_def)

lemma subject_errors:
  "field_passes lib b ''subject'' \<longleftrightarrow>
     validate ''subject'' (isLength 0 (Some 200)) (sanitize (\<lambda>s. Str (trim s)) (b ''subject'')) = []"
  by (simp add: field_passes_def contactValidation_def)

lemma message_errors:
  "field_passes lib b ''message'' \<longleftrightarrow>
     validate ''message'' (isLength 0 (Some 2000)) (sanitize (\<lambda>s. Str (trim s)) (b ''message'')) = []"
  by (simp add: field_passes_def contactValidation_def)

lemma name_passes_elements:
  "field_passes lib b ''name'' \<longleftrightarrow>
     (\<forall>x \<in> set (elements (b ''name'')).
        2 \<le> length (trim (toString x)) \<and> length (trim (toString x)) \<le> 100)"
  by (simp add: name_errors validate_after_trim_Nil isLength_def)

lemma elements_scalar: "\<not> is_array v \<Longrightarrow> elements v = [v]"
  by (cases v) (simp_all add: elements_def is_array_def)

lemma name_passes:
  "\<not> is_array (b ''name'') \<Longrightarrow>
   field_passes lib b ''name'' \<longleftrightarrow>
     2 \<le> length (trim (toString (b ''name''))) \<and> length (trim (toString (b ''name''))) \<le> 100"
  by (simp add: name_passes_elements elements_scalar)

lemma email_passes:
  "\<not> is_array (b ''email'') \<Longrightarrow>
   field_passes lib b ''email'' \<longleftrightarrow> isEmail lib (toString (b ''email''))"
  by (simp add: email_errors validate_Nil elements_scalar)

lemma subject_passes:
  "\<not> is_array (b ''subject'') \<Longrightarrow>
   field_passes lib b ''subject'' \<longleftrightarrow> length (trim (toString (b ''subject''))) \<le> 200"
  by (simp add: subject_errors validate_after_trim_Nil isLength_def elements_scalar)

lemma message_passes:
  "\<not> is_array (b ''message'') \<Longrightarrow>
   field_passes lib b ''message'' \<longleftrightarrow> length (trim (toString (b ''message''))) \<le> 2000"
  by (simp add: message_errors validate_after_trim_Nil isLength_def elements_scalar)

lemma post_contact_eq:
  "post_contact e clk b =
     contact_handler e clk (sanitized (validator e) b) (validationResult (validator e) b)"
  by (simp add: post_contact_def sanitized_def validationResult_def split: prod.splits)

lemma validationResult_Nil: "validationResult lib b = [] \<longleftrightarrow> all_fields_pass lib b"
  by (simp add: validationResult_eq all_fields_pass_def name_errors email_errors subject_errors
      message_errors)

lemma validationResult_params:
  "err_param ` set (validationResult lib b) =
     {f \<in> {''name'', ''email'', ''subject'', ''message''}. \<not> field_passes lib b f}"
proof -
  have "err_param ` set (validationResult lib b) =
      (if field_passes lib b ''name'' then {} else {''name''}) \<union>
      (if field_passes lib b ''email'' then {} else {''email''}) \<union>
      (if field_passes lib b ''subject'' then {} else {''subject''}) \<union>
      (if field_passes lib b ''message'' then {} else {''message''})"
    by (simp only: validationResult_eq set_append image_Un validate_params name_errors
        email_errors subject_errors message_errors Un_assoc)
  also have "\<dots> = {f \<in> {''name'', ''email'', ''subject'', ''message''}. \<not> field_passes lib b f}"
    by auto
  finally show ?thesis .
qed

lemma sanitized_message:
  "\<not> is_array (b ''message'') \<Longrightarrow>
   sanitized lib b ''message'' = Str (escape (trim (toString (b ''message''))))"
  by (simp add: sanitized_eq sanitize_scalar)

lemma sanitized_message_array:
  "is_array (b ''message'') \<Longrightarrow> is_array (sanitized lib b ''message'')"
  by (simp add: sanitized_eq is_array_sanitize_Str)

lemma sample_scalar: "\<not> is_array (sample_body n em f)"
  by (simp add: sample_body_def is_array_def)

lemma dropWhile_hd: "xs \<noteq> [] \<Longrightarrow> \<not> P (hd xs) \<Longrightarrow> dropWhile P xs = xs"
  by (cases xs) auto

lemma trim_plain: "s \<noteq> [] \<Longrightarrow> \<not> whitespace (hd s) \<Longrightarrow> \<not> whitespace (last s) \<Longrightarrow> trim s = s"
  using dropWhile_hd [of s whitespace] dropWhile_hd [of "rev s" whitespace]
  by (simp add: trim_def ltrim_def rtrim_def hd_rev)

lemma trim_replicate: "0 < n \<Longrightarrow> \<not> whitespace c \<Longrightarrow> trim (replicate n c) = replicate n c"
  by (rule trim_plain) (simp_all add: hd_replicate last_replicate)

lemma amp_not_space: "\<not> whitespace CHR ''&''"
  by (simp add: whitespace_def)



lemma sample_passes: "all_fields_pass sample_validator (sample_body ''Ann'' ''Ann@Example.org'')"
  by (simp add: all_fields_pass_def name_passes email_passes subject_passes message_passes sample_scalar)
    (simp add: sample_body_def sample_validator_def trim_def ltrim_def rtrim_def whitespace_def)

lemma sample_passes2: "all_fields_pass sample_validator (sample_body ''Ann'' ''ann@example.org'')"
  by (simp add: all_fields_pass_def name_passes email_passes subject_passes message_passes sample_scalar)
    (simp add: sample_body_def sample_validator_def trim_def ltrim_def rtrim_def whitespace_def)

lemma replace_all_append: "replace_all c r (xs @ ys) = replace_all c r xs @ replace_all c r ys"
  by (simp add: replace_all_def)

lemma replace_all_id: "c \<notin> set s \<Longrightarrow> replace_all c r s = s"
  by (induction s) (auto simp: replace_all_def)

lemma escape_append: "escape (xs @ ys) = escape xs @ escape ys"
  by (simp add: escape_def replace_all_append)

lemma escape_amp: "escape [CHR ''&''] = ''&amp;''"
  by (simp add: escape_def replace_all_def)

lemma escape_replicate_amp: "escape (replicate n CHR ''&'') = concat (replicate n ''&amp;'')"
proof (induction n)
  case 0
  show ?case by (simp add: escape_def replace_all_def)
next
  case (Suc n)
  have "escape (replicate (Suc n) CHR ''&'') = escape ([CHR ''&''] @ replicate n CHR ''&'')"
    by simp
  also have "\<dots> = ''&amp;'' @ escape (replicate n CHR ''&'')"
    by (simp only: escape_append escape_amp)
  finally show ?case
    using Suc.IH by simp
qed

lemma length_amp_entities: "length (concat (replicate n ''&amp;'')) = 5 * n"
  by (simp add: length_concat sum_list_replicate)

lemma no_newline_amp_entities: "CHR 0x0A \<notin> set (concat (replicate n ''&amp;''))"
  by (induction n) auto

lemma amp_trim: "0 < n \<Longrightarrow> trim (replicate n CHR ''&'') = replicate n CHR ''&''"
  by (simp add: trim_replicate amp_not_space)

lemma amp_scalar: "\<not> is_array (amp_body em f)"
  by (simp add: amp_body_def is_array_def)

lemma amp_sanitized:
  "sanitized lib (amp_body em) =
     (amp_body em)(''name'' := Str (concat (replicate 100 ''&amp;'')),
                   ''email'' := normalizeEmail lib em,
                   ''subject'' := Str (concat (replicate 200 ''&amp;'')),
                   ''message'' := Str (concat (replicate 2000 ''&amp;'')))"
  by (simp add: sanitized_eq sanitize_def amp_body_def amp_trim escape_replicate_amp)

section \<open>Facts about the handler\<close>

lemma post_contact_status: "status (response_of (post_contact e clk b)) \<noteq> 429"
  by (simp add: post_contact_eq contact_handler_def validation_failed_def send_succeeded_def
      send_failed_def Let_def split: jsval.splits option.splits)

lemma accepted_string_message:
  assumes "all_fields_pass (validator e) b" and "\<not> is_array (b ''message'')"
  shows "post_contact e clk b =
           (case sendMail e (submission_mail e clk b) of
              None \<Rightarrow> \<lparr>response_of = send_succeeded, sends = [submission_mail e clk b], console = []\<rparr>
            | Some err \<Rightarrow>
                \<lparr>response_of = send_failed, sends = [submission_mail e clk b],
                 console = [(''Email send error:'', TransportError err)]\<rparr>)"
proof -
  have errs: "validationResult (validator e) b = []"
    using assms(1) by (simp add: validationResult_Nil)
  have sm: "submission_mail e clk b =
      compose_mail e clk (sanitized (validator e) b) (escape (trim (toString (b ''message''))))"
    using assms(2) by (simp add: submission_mail_def sanitized_message)
  show ?thesis
    using assms(2)
    by (cases "sendMail e (submission_mail e clk b)")
      (simp_all add: post_contact_eq contact_handler_def errs sm Let_def sanitized_message)
qed

lemma accepted_array_message:
  assumes "all_fields_pass (validator e) b" and "is_array (b ''message'')"
  shows "post_contact e clk b =
           \<lparr>response_of = send_failed, sends = [], console = [(''Email send error:'', TypeError)]\<rparr>"
proof -
  have errs: "validationResult (validator e) b = []"
    using assms(1) by (simp add: validationResult_Nil)
  obtain xs where "sanitized (validator e) b ''message'' = Arr xs"
    using assms(2) sanitized_message_array [of b "validator e"]
    by (cases "sanitized (validator e) b ''message''") (simp_all add: is_array_def)
  then show ?thesis
    by (simp add: post_contact_eq contact_handler_def errs)
qed

lemma rejected:
  assumes "\<not> all_fields_pass (validator e) b"
  shows "post_contact e clk b =
          \<lparr>response_of = validation_failed (validationResult (validator e) b), sends = [], console = []\<rparr>"
proof -
  have "validationResult (validator e) b \<noteq> []"
    using assms by (simp add: validationResult_Nil)
  then show ?thesis
    by (simp add: post_contact_eq contact_handler_def)
qed

lemma sends_accepted:
  assumes "all_fields_pass (validator e) b" and "\<not> is_array (b ''message'')"
  shows "sends (post_contact e clk b) = [submission_mail e clk b]"
  using accepted_string_message [OF assms, of clk]
  by (cases "sendMail e (submission_mail e clk b)") simp_all

lemma array_message_example:
  "all_fields_pass (validator (sample_env None)) array_body
   \<and> post_contact (sample_env None) sample_clock array_body =
       \<lparr>response_of = send_failed, sends = [], console = [(''Email send error:'', TypeError)]\<rparr>"
proof -
  have "field_passes (validator (sample_env None)) array_body ''message''"
    by (simp add: message_errors validate_after_trim_Nil array_body_def elements_def isLength_def)
      (simp add: trim_def ltrim_def rtrim_def whitespace_def)
  moreover have "field_passes (validator (sample_env None)) array_body ''name''"
    "field_passes (validator (sample_env None)) array_body ''email''"
    "field_passes (validator (sample_env None)) array_body ''subject''"
    by (simp_all add: name_passes email_passes subject_passes array_body_def sample_scalar)
      (simp_all add: sample_body_def sample_env_def sample_validator_def trim_def ltrim_def rtrim_def
        whitespace_def)
  ultimately have ok: "all_fields_pass (validator (sample_env None)) array_body"
    by (simp add: all_fields_pass_def)
  have arr: "is_array (array_body ''message'')"
    by (simp add: array_body_def is_array_def)
  show ?thesis
    using ok accepted_array_message [OF ok arr] by simp
qed

section \<open>Facts about the limiter and the application\<close>

lemma limiter_other: "k \<noteq> c \<Longrightarrow> fst (limiter st k t) c = st c"
  by (simp add: limiter_def increment_def Let_def split: prod.splits option.splits)

lemma limiter_counted:
  assumes "counted st c t0 n" and "t0 \<le> t" and "t < t0 + windowMs"
  shows "snd (limiter st c t) = (if limiter_max < Suc n then Some too_many_requests else None)
         \<and> counted (fst (limiter st c t)) c t0 (Suc n)"
  using assms
  by (auto simp: counted_def limiter_def increment_def Let_def windowMs_def split: option.splits if_splits)

lemma limiter_counted_other:
  assumes "counted st c t0 n" and "k \<noteq> c"
  shows "counted (fst (limiter st k t)) c t0 n"
  using assms by (simp add: counted_def limiter_other)

lemma limiter_reply: "snd (limiter st k t) = None \<or> snd (limiter st k t) = Some too_many_requests"
  by (simp add: limiter_def Let_def split: prod.splits)

lemma limiter_fresh: "snd (limiter (\<lambda>_. None) k t) = None"
  by (simp add: limiter_def increment_def limiter_max_def Let_def)

lemma app_store:
  "snd (app e st clk r) =
     (if under_contact (req_path r) then fst (limiter st (req_ip r) (now_ms clk)) else st)"
  by (cases "limiter st (req_ip r) (now_ms clk)") (simp add: app_def Let_def split: option.splits)

lemma app_limited:
  assumes "under_contact (req_path r)" and "snd (limiter st (req_ip r) (now_ms clk)) = Some resp"
  shows "fst (app e st clk r) =
           \<lparr>reply = resp, allow_origin = None, mails = [], logs = [], ran = [Helmet, Limiter]\<rparr>"
  using assms
  by (cases "limiter st (req_ip r) (now_ms clk)") (simp add: app_def Let_def)

lemma app_admitted:
  assumes "under_contact (req_path r)" and "snd (limiter st (req_ip r) (now_ms clk)) = None"
  shows "take 3 (ran (fst (app e st clk r))) = [Helmet, Limiter, Cors]
         \<and> status (reply (fst (app e st clk r))) \<noteq> 429"
  using assms
  by (cases "limiter st (req_ip r) (now_ms clk)")
    (auto simp: app_def contact_route_def Let_def fallback_error_def health_def
      post_contact_status split: sum.splits)

lemma serve_counted:
  assumes "\<forall>x \<in> set rs. from_client c x \<longrightarrow> t0 \<le> now_ms (fst x) \<and> now_ms (fst x) < t0 + windowMs"
    and "counted st c t0 n"
    and "i < length rs"
    and "from_client c (rs ! i)"
  shows "if n + length (filter (from_client c) (take (Suc i) rs)) \<le> limiter_max
         then take 3 (ran (serve e st rs ! i)) = [Helmet, Limiter, Cors]
              \<and> status (reply (serve e st rs ! i)) \<noteq> 429
         else serve e st rs ! i =
                \<lparr>reply = too_many_requests, allow_origin = None, mails = [], logs = [],
                 ran = [Helmet, Limiter]\<rparr>"
  using assms
proof (induction rs arbitrary: st n i)
  case Nil
  then show ?case by simp
next
  case (Cons x rs)
  obtain clk r where x: "x = (clk, r)" by (cases x)
  obtain out st' where a: "app e st clk r = (out, st')" by (cases "app e st clk r")
  have st': "st' = (if under_contact (req_path r) then fst (limiter st (req_ip r) (now_ms clk)) else st)"
    using app_store [of e st clk r] a by simp
  show ?case
  proof (cases "from_client c x")
    case True
    then have path: "under_contact (req_path r)" and ip: "req_ip r = c"
      by (simp_all add: from_client_def x)
    have t: "t0 \<le> now_ms clk" "now_ms clk < t0 + windowMs"
      using Cons.prems(1) True by (auto simp: x)
    have lim: "snd (limiter st c (now_ms clk)) = (if limiter_max < Suc n then Some too_many_requests else None)"
      and cnt: "counted st' c t0 (Suc n)"
      using limiter_counted [OF Cons.prems(2) t] by (simp_all add: st' path ip)
    show ?thesis
    proof (cases i)
      case 0
      have "out = fst (app e st clk r)" using a by simp
      then show ?thesis
        using 0 True lim path app_limited [of r st clk too_many_requests e] app_admitted [of r st clk e]
        by (auto simp: x a ip)
    next
      case (Suc j)
      have "if Suc n + length (filter (from_client c) (take (Suc j) rs)) \<le> limiter_max
         then take 3 (ran (serve e st' rs ! j)) = [Helmet, Limiter, Cors]
              \<and> status (reply (serve e st' rs ! j)) \<noteq> 429
         else serve e st' rs ! j =
                \<lparr>reply = too_many_requests, allow_origin = None, mails = [], logs = [],
                 ran = [Helmet, Limiter]\<rparr>"
        using Cons.prems Suc by (intro Cons.IH [OF _ cnt]) auto
      then show ?thesis
        using True Suc by (simp add: x a)
    qed
  next
    case False
    have cnt: "counted st' c t0 n"
    proof (cases "under_contact (req_path r)")
      case True
      then have "req_ip r \<noteq> c" using False by (simp add: from_client_def x)
      then show ?thesis
        using limiter_counted_other [OF Cons.prems(2)] True by (simp add: st')
    next
      case False
      then show ?thesis using Cons.prems(2) by (simp add: st')
    qed
    obtain j where i: "i = Suc j"
      using False Cons.prems(4) by (cases i) auto
    have "if n + length (filter (from_client c) (take (Suc j) rs)) \<le> limiter_max
         then take 3 (ran (serve e st' rs ! j)) = [Helmet, Limiter, Cors]
              \<and> status (reply (serve e st' rs ! j)) \<noteq> 429
         else serve e st' rs ! j =
                \<lparr>reply = too_many_requests, allow_origin = None, mails = [], logs = [],
                 ran = [Helmet, Limiter]\<rparr>"
      using Cons.prems i by (intro Cons.IH [OF _ cnt]) auto
    then show ?thesis
      using False i by (simp add: x a)
  qed
qed

lemma malformed_json_same_response:
  assumes "req_method r = POST" and "req_path r = ContactPath"
    and "json_content_type r" and "0 < body_bytes r" and "body_bytes r \<le> 10240"
    and "body_json r = None"
    and "snd (limiter st (req_ip r) (now_ms clk)) = None"
  shows "reply (fst (app e st clk r)) = fallback_error"
  using assms
  by (cases "limiter st (req_ip r) (now_ms clk)")
    (simp add: app_def contact_route_def express_json_def json_limit_def under_contact_def Let_def)

section \<open>The claims\<close>

text \<open>
  Claim C1, as amended. For every submission whose message is a string, in which all four
  fields pass their validation rules and the mail transport accepts the send, the handler
  responds with status 200 and the fixed body
  \<open>{success: true, message: 'Your message has been sent successfully!'}\<close>, exactly one
  send is attempted, the recipient of the send is the fixed address
  \<open>saadnadeem962@gmail.com\<close>, and the reply-to of the send is the value the chain left in
  \<open>req.body.email\<close>: for an email that is not an array, the value \<open>normalizeEmail\<close>
  returns for the submitted email.
\<close>

theorem C1_valid_submission_sent:
  assumes "all_fields_pass (validator e) b"
    and "\<not> is_array (b ''message'')"
    and "sendMail e (submission_mail e clk b) = None"
  shows "response_of (post_contact e clk b) =
           \<lparr>status = 200,
            body = JsonBody [(''success'', JBool True),
                             (''message'', JString ''Your message has been sent successfully!'')]\<rparr>
         \<and> sends (post_contact e clk b) = [submission_mail e clk b]
         \<and> replyTo (submission_mail e clk b) = sanitize (normalizeEmail (validator e)) (b ''email'')
         \<and> (\<not> is_array (b ''email'') \<longrightarrow>
              replyTo (submission_mail e clk b) = normalizeEmail (validator e) (toString (b ''email'')))
         \<and> mail_to (submission_mail e clk b) = ''saadnadeem962@gmail.com''"
proof -
  have "post_contact e clk b =
          \<lparr>response_of = send_succeeded, sends = [submission_mail e clk b], console = []\<rparr>"
    using accepted_string_message [OF assms(1,2), of clk] assms(3) by simp
  moreover have "replyTo (submission_mail e clk b) = sanitize (normalizeEmail (validator e)) (b ''email'')"
    by (simp add: submission_mail_def compose_mail_def sanitized_eq)
  moreover have "mail_to (submission_mail e clk b) = ''saadnadeem962@gmail.com''"
    by (simp add: submission_mail_def compose_mail_def)
  ultimately show ?thesis
    by (simp add: send_succeeded_def sanitize_scalar)
qed

text \<open>C1 at a concrete submission: all hypotheses hold and the send goes out.\<close>

theorem C1_valid_submission_sent_witness:
  "all_fields_pass (validator (sample_env None)) (sample_body ''Ann'' ''ann@example.org'')
   \<and> \<not> is_array (sample_body ''Ann'' ''ann@example.org'' ''message'')
   \<and> status (response_of (post_contact (sample_env None) sample_clock (sample_body ''Ann'' ''ann@example.org''))) = 200
   \<and> map replyTo (sends (post_contact (sample_env None) sample_clock (sample_body ''Ann'' ''ann@example.org''))) = [Str ''ann@example.org'']
   \<and> map mail_to (sends (post_contact (sample_env None) sample_clock (sample_body ''Ann'' ''ann@example.org''))) = [''saadnadeem962@gmail.com'']"
proof -
  have ok: "all_fields_pass (validator (sample_env None)) (sample_body ''Ann'' ''ann@example.org'')"
    by (simp add: sample_env_def sample_passes2)
  have str: "\<not> is_array (sample_body ''Ann'' ''ann@example.org'' ''message'')"
    by (rule sample_scalar)
  have acc: "sendMail (sample_env None) (submission_mail (sample_env None) sample_clock (sample_body ''Ann'' ''ann@example.org'')) = None"
    by (simp add: sample_env_def)
  have em: "sample_body ''Ann'' ''ann@example.org'' ''email'' = Str ''ann@example.org''"
    by (simp add: sample_body_def)
  show ?thesis
    using ok str C1_valid_submission_sent [OF ok str acc]
    by (simp add: em sanitize_scalar is_array_def) (simp add: sample_env_def sample_validator_def normalize_sample2)
qed

text \<open>
  Claim C1 as stated (the reply-to equals the submitted email) fails: the submission with
  the email \<open>Ann@Example.org\<close> is valid, the transport accepts it, and it is sent with
  the reply-to \<open>ann@example.org\<close>.
\<close>

theorem C1_reply_to_counterexample:
  "all_fields_pass (validator (sample_env None)) (sample_body ''Ann'' ''Ann@Example.org'')
   \<and> sendMail (sample_env None)
         (submission_mail (sample_env None) sample_clock (sample_body ''Ann'' ''Ann@Example.org'')) = None
   \<and> status (response_of (post_contact (sample_env None) sample_clock
         (sample_body ''Ann'' ''Ann@Example.org''))) = 200
   \<and> map replyTo (sends (post_contact (sample_env None) sample_clock
         (sample_body ''Ann'' ''Ann@Example.org''))) = [Str ''ann@example.org'']
   \<and> map replyTo (sends (post_contact (sample_env None) sample_clock
         (sample_body ''Ann'' ''Ann@Example.org''))) \<noteq> [sample_body ''Ann'' ''Ann@Example.org'' ''email'']"
proof -
  have ok: "all_fields_pass (validator (sample_env None)) (sample_body ''Ann'' ''Ann@Example.org'')"
    by (simp add: sample_env_def sample_passes)
  have acc: "sendMail (sample_env None)
         (submission_mail (sample_env None) sample_clock (sample_body ''Ann'' ''Ann@Example.org'')) = None"
    by (simp add: sample_env_def)
  have sent: "post_contact (sample_env None) sample_clock (sample_body ''Ann'' ''Ann@Example.org'') =
      \<lparr>response_of = send_succeeded,
       sends = [submission_mail (sample_env None) sample_clock (sample_body ''Ann'' ''Ann@Example.org'')],
       console = []\<rparr>"
    using accepted_string_message [OF ok sample_scalar, of sample_clock] acc by simp
  have raw: "sample_body ''Ann'' ''Ann@Example.org'' ''email'' = Str ''Ann@Example.org''"
    by (simp add: sample_body_def)
  have reply: "replyTo (submission_mail (sample_env None) sample_clock (sample_body ''Ann'' ''Ann@Example.org''))
      = Str ''ann@example.org''"
    by (simp add: submission_mail_def compose_mail_def sanitized_eq raw sanitize_def)
      (simp add: sample_env_def sample_validator_def normalize_sample)
  show ?thesis
    using ok acc by (simp add: sent reply raw send_succeeded_def)
qed

text \<open>
  Claim C2. For every request in which at least one of the four fields violates its
  validation rule, the handler responds with status 400 and the body \<open>{errors: [...]}\<close>
  whose list is not empty and whose entries name exactly the violating fields, and no
  send is attempted.
\<close>

theorem C2_validation_rejected:
  assumes "\<not> all_fields_pass (validator e) b"
  shows "response_of (post_contact e clk b) =
           \<lparr>status = 400, body = ErrorsBody (validationResult (validator e) b)\<rparr>
         \<and> validationResult (validator e) b \<noteq> []
         \<and> err_param ` set (validationResult (validator e) b) =
             {f \<in> {''name'', ''email'', ''subject'', ''message''}. \<not> field_passes (validator e) b f}
         \<and> sends (post_contact e clk b) = []"
proof -
  have errs: "validationResult (validator e) b \<noteq> []"
    using assms by (simp add: validationResult_Nil)
  show ?thesis
    using errs rejected [OF assms, of clk] validationResult_params [of "validator e" b]
    by (simp add: validation_failed_def)
qed

text \<open>C2 at a body with a one-letter name and an email that is no address.\<close>

theorem C2_validation_rejected_witness:
  "\<not> all_fields_pass (validator (sample_env None)) (sample_body ''A'' ''nope'')
   \<and> status (response_of (post_contact (sample_env None) sample_clock (sample_body ''A'' ''nope''))) = 400
   \<and> map err_param (validationResult (validator (sample_env None)) (sample_body ''A'' ''nope'')) = [''name'', ''email'']
   \<and> sends (post_contact (sample_env None) sample_clock (sample_body ''A'' ''nope'')) = []"
proof -
  have bad: "\<not> all_fields_pass (validator (sample_env None)) (sample_body ''A'' ''nope'')"
    by (simp add: all_fields_pass_def name_passes sample_scalar)
      (simp add: sample_body_def trim_def ltrim_def rtrim_def whitespace_def)
  have "map err_param (validationResult (validator (sample_env None)) (sample_body ''A'' ''nope'')) = [''name'', ''email'']"
    by (simp add: validationResult_eq validate_def sanitize_def elements_def entry_def sample_body_def
        isLength_def sample_env_def sample_validator_def)
      (simp add: trim_def ltrim_def rtrim_def whitespace_def)
  then show ?thesis
    using bad C2_validation_rejected [OF bad, of sample_clock] by simp
qed



text \<open>
  Claim C4. For every valid submission where the mail transport rejects the send, the
  handler responds with status 500 and the fixed body
  \<open>{success: false, error: 'Message failed to send. Please try again later.'}\<close>:
  the response is this constant whatever the error \<open>err\<close> of the transport is, and
  the error goes to the console only. (When the message is an array the send is not
  reached: the console gets the TypeError and the response is the same.)
\<close>

theorem C4_send_failed:
  assumes "all_fields_pass (validator e) b"
    and "sendMail e (submission_mail e clk b) = Some err"
  shows "response_of (post_contact e clk b) =
           \<lparr>status = 500,
            body = JsonBody [(''success'', JBool False),
                             (''error'', JString ''Message failed to send. Please try again later.'')]\<rparr>
         \<and> console (post_contact e clk b) =
             [(''Email send error:'',
               if is_array (b ''message'') then TypeError else TransportError err)]"
proof (cases "is_array (b ''message'')")
  case True
  then show ?thesis
    using accepted_array_message [OF assms(1) True, of clk] by (simp add: send_failed_def)
next
  case False
  then show ?thesis
    using accepted_string_message [OF assms(1) False, of clk] assms(2) by (simp add: send_failed_def)
qed

text \<open>C4 with a transport that rejects with an authentication error.\<close>

theorem C4_send_failed_witness:
  "all_fields_pass (validator (sample_env (Some ''EAUTH 535 bad credentials''))) (sample_body ''Ann'' ''ann@example.org'')
   \<and> response_of (post_contact (sample_env (Some ''EAUTH 535 bad credentials'')) sample_clock (sample_body ''Ann'' ''ann@example.org''))
       = send_failed
   \<and> console (post_contact (sample_env (Some ''EAUTH 535 bad credentials'')) sample_clock (sample_body ''Ann'' ''ann@example.org''))
       = [(''Email send error:'', TransportError ''EAUTH 535 bad credentials'')]"
proof -
  have ok: "all_fields_pass (validator (sample_env (Some ''EAUTH 535 bad credentials''))) (sample_body ''Ann'' ''ann@example.org'')"
    by (simp add: sample_env_def sample_passes2)
  have rej: "sendMail (sample_env (Some ''EAUTH 535 bad credentials''))
        (submission_mail (sample_env (Some ''EAUTH 535 bad credentials'')) sample_clock (sample_body ''Ann'' ''ann@example.org''))
      = Some ''EAUTH 535 bad credentials''"
    by (simp add: sample_env_def)
  show ?thesis
    using ok C4_send_failed [OF ok rej] by (simp add: send_failed_def sample_scalar)
qed

text \<open>
  Claim C5, as amended. The limiter is mounted on the prefix /contact, so it counts every
  request of a client to a path under that prefix, whatever the method and whether or not
  a route matches. Let the requests \<open>rs\<close> be served one after the other, the client
  \<open>c\<close> have no window open at \<open>t0\<close>, and all requests of \<open>c\<close> under /contact fall
  into \<open>[t0, t0 + windowMs)\<close>, one window of 15 minutes. Then each of the first 100
  requests of \<open>c\<close> under /contact is admitted (the limiter calls the next middleware and
  the status is not 429), and the 101st, as every later one, receives status 429 with the
  fixed message \<open>Too many requests. Please try again later.\<close>; for it no stage after
  the limiter runs and no send is attempted. Requests of other clients, and requests to
  paths that are not under /contact, may come in between and are not counted.
\<close>

theorem C5_rate_limit:
  assumes "case st c of None \<Rightarrow> True | Some en \<Rightarrow> resetTime en \<le> t0"
    and "\<forall>x \<in> set rs. from_client c x \<longrightarrow> t0 \<le> now_ms (fst x) \<and> now_ms (fst x) < t0 + windowMs"
    and "i < length rs"
    and "from_client c (rs ! i)"
  shows "if length (filter (from_client c) (take (Suc i) rs)) \<le> 100
         then take 3 (ran (serve e st rs ! i)) = [Helmet, Limiter, Cors]
              \<and> status (reply (serve e st rs ! i)) \<noteq> 429
         else serve e st rs ! i =
                \<lparr>reply = \<lparr>status = 429, body = TextBody ''Too many requests. Please try again later.''\<rparr>,
                 allow_origin = None, mails = [], logs = [], ran = [Helmet, Limiter]\<rparr>"
proof -
  have "counted st c t0 0"
    using assms(1) by (simp add: counted_def split: option.splits)
  from serve_counted [OF assms(2) this assms(3) assms(4), of e] show ?thesis
    by (simp add: limiter_max_def too_many_requests_def)
qed

text \<open>C5 at 101 requests of one client: the 100th is admitted, the 101st is not.\<close>

theorem C5_rate_limit_witness:
  "(case (\<lambda>_. None) ''203.0.113.7'' of None \<Rightarrow> True | Some en \<Rightarrow> resetTime en \<le> 0)
   \<and> from_client ''203.0.113.7'' (burst ! 99) \<and> from_client ''203.0.113.7'' (burst ! 100)
   \<and> now_ms (fst (burst ! 100)) < windowMs
   \<and> length (filter (from_client ''203.0.113.7'') (take 100 burst)) = 100
   \<and> take 3 (ran (serve (sample_env None) (\<lambda>_. None) burst ! 99)) = [Helmet, Limiter, Cors]
   \<and> status (reply (serve (sample_env None) (\<lambda>_. None) burst ! 99)) \<noteq> 429
   \<and> length (filter (from_client ''203.0.113.7'') (take 101 burst)) = 101
   \<and> serve (sample_env None) (\<lambda>_. None) burst ! 100 =
        \<lparr>reply = \<lparr>status = 429, body = TextBody ''Too many requests. Please try again later.''\<rparr>,
         allow_origin = None, mails = [], logs = [], ran = [Helmet, Limiter]\<rparr>"
proof -
  have mine: "from_client ''203.0.113.7'' (sample_clock, sample_request)"
    by (simp add: from_client_def sample_request_def under_contact_def)
  have fresh: "case (\<lambda>_. None :: limiter_entry option) ''203.0.113.7'' of None \<Rightarrow> True | Some en \<Rightarrow> resetTime en \<le> 0"
    by simp
  have window: "\<forall>x \<in> set burst. from_client ''203.0.113.7'' x \<longrightarrow>
      0 \<le> now_ms (fst x) \<and> now_ms (fst x) < 0 + windowMs"
    by (simp add: burst_def sample_clock_def windowMs_def)
  have n99: "length (filter (from_client ''203.0.113.7'') (take (Suc 99) burst)) = 100"
    by (simp add: burst_def mine)
  have n100: "length (filter (from_client ''203.0.113.7'') (take (Suc 100) burst)) = 101"
    by (simp add: burst_def mine)
  have i99: "from_client ''203.0.113.7'' (burst ! 99)" and i100: "from_client ''203.0.113.7'' (burst ! 100)"
    by (simp_all add: burst_def mine)
  have len: "99 < length burst" "100 < length burst"
    by (simp_all add: burst_def)
  have t: "now_ms (fst (burst ! 100)) < windowMs"
    by (simp add: burst_def sample_clock_def windowMs_def)
  show ?thesis
    using C5_rate_limit [OF fresh window len(1) i99, of "sample_env None"]
      C5_rate_limit [OF fresh window len(2) i100, of "sample_env None"]
      n99 n100 i99 i100 t
    by simp
qed

text \<open>
  Claim C5 as stated (the requests to /contact up to and including the 100th are admitted)
  fails: after 100 requests of a client to \<open>/contact/zzz\<close>, which no route matches, the
  first request of that client to /contact in the window, a POST, receives the 429.
\<close>

theorem C5_prefix_mount_counterexample:
  "length (filter (\<lambda>x. req_path (snd x) = ContactPath \<and> req_ip (snd x) = ''203.0.113.7'')
      (take 101 subpath_burst)) = 1
   \<and> req_path (snd (subpath_burst ! 100)) = ContactPath
   \<and> req_method (snd (subpath_burst ! 100)) = POST
   \<and> now_ms (fst (subpath_burst ! 100)) < windowMs
   \<and> serve (sample_env None) (\<lambda>_. None) subpath_burst ! 100 =
        \<lparr>reply = \<lparr>status = 429, body = TextBody ''Too many requests. Please try again later.''\<rparr>,
         allow_origin = None, mails = [], logs = [], ran = [Helmet, Limiter]\<rparr>"
proof -
  have sub: "from_client ''203.0.113.7'' (sample_clock, subpath_request)"
    "req_path subpath_request \<noteq> ContactPath"
    by (simp_all add: from_client_def subpath_request_def under_contact_def)
  have mine: "from_client ''203.0.113.7'' (sample_clock, sample_request)"
    "req_path sample_request = ContactPath" "req_ip sample_request = ''203.0.113.7''"
    "req_method sample_request = POST"
    by (simp_all add: from_client_def sample_request_def under_contact_def)
  have last: "subpath_burst ! 100 = (sample_clock, sample_request)"
    by (simp add: subpath_burst_def nth_append)
  have window: "\<forall>x \<in> set subpath_burst. from_client ''203.0.113.7'' x \<longrightarrow>
      0 \<le> now_ms (fst x) \<and> now_ms (fst x) < 0 + windowMs"
    by (auto simp: subpath_burst_def sample_clock_def windowMs_def)
  have cnt: "counted (\<lambda>_. None) ''203.0.113.7'' 0 0"
    by (simp add: counted_def)
  have n: "length (filter (from_client ''203.0.113.7'') (take (Suc 100) subpath_burst)) = 101"
    by (simp add: subpath_burst_def sub mine)
  have exact: "length (filter (\<lambda>x. req_path (snd x) = ContactPath \<and> req_ip (snd x) = ''203.0.113.7'')
      (take 101 subpath_burst)) = 1"
    by (simp add: subpath_burst_def sub mine)
  have "serve (sample_env None) (\<lambda>_. None) subpath_burst ! 100 =
        \<lparr>reply = too_many_requests, allow_origin = None, mails = [], logs = [], ran = [Helmet, Limiter]\<rparr>"
    using serve_counted [OF window cnt, of 100 "sample_env None"] n mine(1)
    by (simp add: last limiter_max_def) (simp add: subpath_burst_def)
  then show ?thesis
    using exact by (simp add: last mine too_many_requests_def sample_clock_def windowMs_def)
qed

text \<open>
  Claim C6, as amended. Every POST to /contact with a JSON content type whose body exceeds
  10KB is rejected before any field validation rule runs: neither the validation chains nor
  the handler run, no send is attempted, and the response is not a 400 field-error body
  but the 500 \<open>{success: false, error: 'Internal Server Error'}\<close> of the error
  middleware (or the 429 of the rate limiter, when the client is over its limit).
\<close>

theorem C6_oversized_json_rejected:
  assumes "req_method r = POST" and "req_path r = ContactPath"
    and "json_content_type r" and "10240 < body_bytes r"
  shows "reply (fst (app e st clk r)) =
           (if snd (limiter st (req_ip r) (now_ms clk)) = None
            then \<lparr>status = 500,
                  body = JsonBody [(''success'', JBool False),
                                   (''error'', JString ''Internal Server Error'')]\<rparr>
            else \<lparr>status = 429, body = TextBody ''Too many requests. Please try again later.''\<rparr>)
         \<and> Validation \<notin> set (ran (fst (app e st clk r)))
         \<and> ContactHandler \<notin> set (ran (fst (app e st clk r)))
         \<and> mails (fst (app e st clk r)) = []
         \<and> status (reply (fst (app e st clk r))) \<noteq> 400"
proof -
  have big: "express_json r = Inl PayloadTooLarge"
    using assms(3,4) by (simp add: express_json_def json_limit_def)
  show ?thesis
  proof (cases "limiter st (req_ip r) (now_ms clk)")
    case (Pair st' limited)
    then have "limited = None \<or> limited = Some too_many_requests"
      using limiter_reply [of st "req_ip r" "now_ms clk"] by simp
    then show ?thesis
      using assms(1,2) Pair big
      by (auto simp: app_def contact_route_def Let_def fallback_error_def too_many_requests_def
          under_contact_def)
  qed
qed

text \<open>C6 at a JSON request of 10241 bytes.\<close>

theorem C6_oversized_json_rejected_witness:
  "req_method (sample_request\<lparr>body_bytes := 10241\<rparr>) = POST
   \<and> req_path (sample_request\<lparr>body_bytes := 10241\<rparr>) = ContactPath
   \<and> json_content_type (sample_request\<lparr>body_bytes := 10241\<rparr>)
   \<and> 10240 < body_bytes (sample_request\<lparr>body_bytes := 10241\<rparr>)
   \<and> reply (fst (app (sample_env None) (\<lambda>_. None) sample_clock (sample_request\<lparr>body_bytes := 10241\<rparr>))) =
        \<lparr>status = 500,
         body = JsonBody [(''success'', JBool False), (''error'', JString ''Internal Server Error'')]\<rparr>
   \<and> mails (fst (app (sample_env None) (\<lambda>_. None) sample_clock (sample_request\<lparr>body_bytes := 10241\<rparr>))) = []"
proof -
  have h: "req_method (sample_request\<lparr>body_bytes := 10241\<rparr>) = POST"
    "req_path (sample_request\<lparr>body_bytes := 10241\<rparr>) = ContactPath"
    "json_content_type (sample_request\<lparr>body_bytes := 10241\<rparr>)"
    "10240 < body_bytes (sample_request\<lparr>body_bytes := 10241\<rparr>)"
    by (simp_all add: sample_request_def)
  show ?thesis
    using h C6_oversized_json_rejected [OF h, of "sample_env None" "\<lambda>_. None" sample_clock]
    by (simp add: limiter_fresh)
qed

text \<open>
  Claim C6 as stated (every request whose body exceeds 10KB) fails: a POST of 20000 bytes
  whose content type is not JSON is not read by the JSON parser, the validation chains run
  on the empty body, and the response is the 400 field-error body.
\<close>

theorem C6_other_content_type_counterexample:
  "req_method oversized_text_request = POST
   \<and> req_path oversized_text_request = ContactPath
   \<and> 10240 < body_bytes oversized_text_request
   \<and> reply (fst (app (sample_env None) (\<lambda>_. None) sample_clock oversized_text_request)) =
        \<lparr>status = 400,
         body = ErrorsBody [entry ''name'' (Str []), entry ''email'' Undefined]\<rparr>
   \<and> ran (fst (app (sample_env None) (\<lambda>_. None) sample_clock oversized_text_request)) =
        [Helmet, Limiter, Cors, JsonParser, Validation, ContactHandler]"
proof -
  have js: "express_json oversized_text_request = Inr (\<lambda>_. Undefined)"
    by (simp add: express_json_def oversized_text_request_def)
  have errs: "validationResult (validator (sample_env None)) (\<lambda>_. Undefined) =
      [entry ''name'' (Str []), entry ''email'' Undefined]"
    by (simp add: validationResult_eq validate_def sanitize_def elements_def isLength_def
        sample_env_def sample_validator_def)
      (simp add: trim_def ltrim_def rtrim_def)
  have "response_of (post_contact (sample_env None) sample_clock (\<lambda>_. Undefined)) =
      \<lparr>status = 400, body = ErrorsBody [entry ''name'' (Str []), entry ''email'' Undefined]\<rparr>"
    by (simp add: post_contact_eq contact_handler_def errs validation_failed_def)
  then show ?thesis
    using js limiter_fresh [of "req_ip oversized_text_request" "now_ms sample_clock"]
    by (cases "limiter (\<lambda>_. None) (req_ip oversized_text_request) (now_ms sample_clock)")
      (simp add: app_def contact_route_def Let_def oversized_text_request_def under_contact_def)
qed



text \<open>
  Claim C8. Every GET / is answered with status 200 and the JSON body of exactly the three
  keys \<open>status\<close> (\<open>healthy\<close>), \<open>service\<close> (\<open>Gussy Contact API\<close>) and
  \<open>timestamp\<close> (the server's time), whatever the environment \<open>e\<close> (the mail
  transport, its credentials) and the limiter's store are; nothing is sent.
\<close>

theorem C8_health_check:
  assumes "req_method r = GET" and "req_path r = RootPath"
  shows "reply (fst (app e st clk r)) =
           \<lparr>status = 200,
            body = JsonBody [(''status'', JString ''healthy''),
                             (''service'', JString ''Gussy Contact API''),
                             (''timestamp'', JString (now_iso clk))]\<rparr>
         \<and> ran (fst (app e st clk r)) = [Helmet, Cors, HealthHandler]
         \<and> mails (fst (app e st clk r)) = []
         \<and> snd (app e st clk r) = st"
  using assms by (simp add: app_def health_def under_contact_def Let_def)

text \<open>C8 with a mail transport that refuses every send.\<close>

theorem C8_health_check_witness:
  "req_method health_request = GET \<and> req_path health_request = RootPath
   \<and> reply (fst (app (sample_env (Some ''ECONNREFUSED'')) (\<lambda>_. None) sample_clock health_request)) =
       \<lparr>status = 200,
        body = JsonBody [(''status'', JString ''healthy''),
                         (''service'', JString ''Gussy Contact API''),
                         (''timestamp'', JString ''2026-11-02T10:00:00.000Z'')]\<rparr>"
proof -
  have m: "req_method health_request = GET" and p: "req_path health_request = RootPath"
    by (simp_all add: health_request_def)
  show ?thesis
    using m p C8_health_check [OF m p, of "sample_env (Some ''ECONNREFUSED'')" "\<lambda>_. None" sample_clock]
    by (simp add: sample_clock_def)
qed

text \<open>
  Claim C9 says that with the configured allow-list every declared origin is admitted by
  the origin check. The allow-list of server.js is the array with the one entry \<open>*\<close>,
  and the check compares the request's origin with the entries: it admits the origin
  \<open>*\<close> only. For the origin \<open>https://example.com\<close> the check fails and the header
  Access-Control-Allow-Origin is not set.
\<close>

theorem C9_wildcard_entry_admits_no_origin:
  "(isOriginAllowed origin (OriginArray allowedOrigins) \<longleftrightarrow> origin = Some ''*'')
   \<and> \<not> isOriginAllowed (Some ''https://example.com'') (OriginArray allowedOrigins)
   \<and> allow_origin (fst (app (sample_env None) (\<lambda>_. None) sample_clock sample_request)) = None"
proof -
  have "snd (limiter (\<lambda>_. None) (req_ip sample_request) (now_ms sample_clock)) = None"
    by (simp add: limiter_def increment_def limiter_max_def Let_def)
  then have "allow_origin (fst (app (sample_env None) (\<lambda>_. None) sample_clock sample_request)) =
      configureOrigin (OriginArray allowedOrigins) (req_origin sample_request)"
    by (cases "limiter (\<lambda>_. None) (req_ip sample_request) (now_ms sample_clock)")
      (simp add: app_def contact_route_def Let_def sample_request_def under_contact_def
        split: sum.splits)
  then show ?thesis
    by (auto simp: configureOrigin_def allowedOrigins_def sample_request_def)
qed

text \<open>
  Claim C10. In the chains of name, subject and message the value is escaped after the
  length check: the rule bounds the length of the trimmed value, and the handler and the
  outgoing mail get the escaped one. The body with a name of 100, a subject of 200 and a
  message of 2000 characters \<open>&\<close> passes validation; the handler is run on a body whose
  name has 500, whose subject has 1000 and whose message has 10000 characters, and the
  mail it hands to the transport carries them in its subject line and in its HTML page.
  For every string field the rule is a bound on the trimmed value and the value read by
  the handler is the escaped trimmed value.
\<close>

theorem C10_escape_after_length_check:
  assumes "isEmail (validator e) em"
  shows \<open>all_fields_pass (validator e) (amp_body em)
    \<and> length (trim (toString (amp_body em ''name''))) = 100
    \<and> length (trim (toString (amp_body em ''subject''))) = 200
    \<and> length (trim (toString (amp_body em ''message''))) = 2000
    \<and> length (concat (replicate 100 ''&amp;'')) = 500
    \<and> length (concat (replicate 200 ''&amp;'')) = 1000
    \<and> length (concat (replicate 2000 ''&amp;'')) = 10000
    \<and> post_contact e clk (amp_body em) =
        contact_handler e clk
          ((amp_body em)(''name'' := Str (concat (replicate 100 ''&amp;'')),
                         ''email'' := normalizeEmail (validator e) em,
                         ''subject'' := Str (concat (replicate 200 ''&amp;'')),
                         ''message'' := Str (concat (replicate 2000 ''&amp;'')))) []
    \<and> map mail_subject (sends (post_contact e clk (amp_body em))) =
        [''New Contact: '' @ concat (replicate 200 ''&amp;'')]
    \<and> map html (sends (post_contact e clk (amp_body em))) =
        [nl @
         ''          <div style="font-family: Arial, sans-serif;">'' @ nl @
         ''            <h2>Contact Form Submission</h2>'' @ nl @
         ''            <p><strong>From:</strong> '' @ concat (replicate 100 ''&amp;'') @ '' ('' @
                        interpolate (normalizeEmail (validator e) em) @ '')</p>'' @ nl @
         ''            <p><strong>Subject:</strong> '' @ concat (replicate 200 ''&amp;'') @ ''</p>'' @ nl @
         ''            <div style="margin-top: 20px; padding: 10px; border: 1px solid #eee;">'' @ nl @
         ''              '' @ concat (replicate 2000 ''&amp;'') @ nl @
         ''            </div>'' @ nl @
         ''            <p style="color: #666; margin-top: 20px;">'' @ nl @
         ''              Sent via Gussy Contact Form at '' @ now_locale clk @ nl @
         ''            </p>'' @ nl @
         ''          </div>'' @ nl @
         ''        '']
    \<and> (b ''name'' = Str n \<longrightarrow>
          (field_passes (validator e) b ''name'' \<longleftrightarrow> 2 \<le> length (trim n) \<and> length (trim n) \<le> 100)
          \<and> sanitized (validator e) b ''name'' = Str (escape (trim n)))
    \<and> (b ''subject'' = Str s \<longrightarrow>
          (field_passes (validator e) b ''subject'' \<longleftrightarrow> length (trim s) \<le> 200)
          \<and> sanitized (validator e) b ''subject'' = Str (escape (trim s)))
    \<and> (b ''message'' = Str m \<longrightarrow>
          (field_passes (validator e) b ''message'' \<longleftrightarrow> length (trim m) \<le> 2000)
          \<and> sanitized (validator e) b ''message'' = Str (escape (trim m)))
    \<and> (all_fields_pass (validator e) b \<and> b ''subject'' = Str s \<and> b ''message'' = Str m \<longrightarrow>
          map mail_subject (sends (post_contact e clk b)) = [''New Contact: '' @ escape (trim s)])\<close>
proof -
  have ok: "all_fields_pass (validator e) (amp_body em)"
    using assms
    by (simp add: all_fields_pass_def name_passes email_passes subject_passes message_passes amp_scalar)
      (simp add: amp_body_def amp_trim)
  have lens: "length (trim (toString (amp_body em ''name''))) = 100"
    "length (trim (toString (amp_body em ''subject''))) = 200"
    "length (trim (toString (amp_body em ''message''))) = 2000"
    by (simp_all add: amp_body_def amp_trim)
  have errs: "validationResult (validator e) (amp_body em) = []"
    using ok by (simp add: validationResult_Nil)
  have handler: "post_contact e clk (amp_body em) =
        contact_handler e clk
          ((amp_body em)(''name'' := Str (concat (replicate 100 ''&amp;'')),
                         ''email'' := normalizeEmail (validator e) em,
                         ''subject'' := Str (concat (replicate 200 ''&amp;'')),
                         ''message'' := Str (concat (replicate 2000 ''&amp;'')))) []"
    by (simp only: post_contact_eq errs amp_sanitized)
  have sent: "sends (post_contact e clk (amp_body em)) = [submission_mail e clk (amp_body em)]"
    by (rule sends_accepted [OF ok amp_scalar])
  have subj: "mail_subject (submission_mail e clk (amp_body em)) =
      ''New Contact: '' @ concat (replicate 200 ''&amp;'')"
    by (simp add: submission_mail_def compose_mail_def amp_sanitized)
  let ?page = \<open>
         nl @
         ''          <div style="font-family: Arial, sans-serif;">'' @ nl @
         ''            <h2>Contact Form Submission</h2>'' @ nl @
         ''            <p><strong>From:</strong> '' @ concat (replicate 100 ''&amp;'') @ '' ('' @
                        interpolate (normalizeEmail (validator e) em) @ '')</p>'' @ nl @
         ''            <p><strong>Subject:</strong> '' @ concat (replicate 200 ''&amp;'') @ ''</p>'' @ nl @
         ''            <div style="margin-top: 20px; padding: 10px; border: 1px solid #eee;">'' @ nl @
         ''              '' @ concat (replicate 2000 ''&amp;'') @ nl @
         ''            </div>'' @ nl @
         ''            <p style="color: #666; margin-top: 20px;">'' @ nl @
         ''              Sent via Gussy Contact Form at '' @ now_locale clk @ nl @
         ''            </p>'' @ nl @
         ''          </div>'' @ nl @
         ''        ''\<close>
  have page: "html (submission_mail e clk (amp_body em)) = ?page"
    by (simp add: submission_mail_def compose_mail_def amp_sanitized
        replace_all_id [OF no_newline_amp_entities])
  have page2: "map html (sends (post_contact e clk (amp_body em))) = [?page]"
    by (simp only: sent list.map page)
  have nm: "(field_passes (validator e) b ''name'' \<longleftrightarrow> 2 \<le> length (trim n) \<and> length (trim n) \<le> 100)
          \<and> sanitized (validator e) b ''name'' = Str (escape (trim n))"
    if "b ''name'' = Str n"
    using that by (simp add: name_passes is_array_def sanitized_eq sanitize_def)
  have su: "(field_passes (validator e) b ''subject'' \<longleftrightarrow> length (trim s) \<le> 200)
          \<and> sanitized (validator e) b ''subject'' = Str (escape (trim s))"
    if "b ''subject'' = Str s"
    using that by (simp add: subject_passes is_array_def sanitized_eq sanitize_def)
  have me: "(field_passes (validator e) b ''message'' \<longleftrightarrow> length (trim m) \<le> 2000)
          \<and> sanitized (validator e) b ''message'' = Str (escape (trim m))"
    if "b ''message'' = Str m"
    using that by (simp add: message_passes is_array_def sanitized_eq sanitize_def)
  have general: "map mail_subject (sends (post_contact e clk b)) = [''New Contact: '' @ escape (trim s)]"
    if "all_fields_pass (validator e) b" and "b ''subject'' = Str s" and "b ''message'' = Str m"
  proof -
    have "\<not> is_array (b ''message'')"
      using that(3) by (simp add: is_array_def)
    from sends_accepted [OF that(1) this, of clk] show ?thesis
      using that(2) by (simp add: submission_mail_def compose_mail_def sanitized_eq sanitize_def)
  qed
  have sub2: "map mail_subject (sends (post_contact e clk (amp_body em))) =
        [''New Contact: '' @ concat (replicate 200 ''&amp;'')]"
    by (simp only: sent list.map subj)
  have caps: "length (concat (replicate 100 ''&amp;'')) = 500"
    "length (concat (replicate 200 ''&amp;'')) = 1000"
    "length (concat (replicate 2000 ''&amp;'')) = 10000"
    by (simp_all add: length_amp_entities)
  from ok lens caps handler sub2 page2 nm su me general show ?thesis
    by blast
qed

text \<open>C10 with an address the sample validator accepts: the subject line of the mail has
  1013 characters for a subject of 200.\<close>

theorem C10_escape_after_length_check_witness:
  "isEmail (validator (sample_env None)) ''ann@example.org''
   \<and> all_fields_pass (validator (sample_env None)) (amp_body ''ann@example.org'')
   \<and> map mail_subject (sends (post_contact (sample_env None) sample_clock (amp_body ''ann@example.org''))) =
        [''New Contact: '' @ concat (replicate 200 ''&amp;'')]
   \<and> map (length \<circ> mail_subject) (sends (post_contact (sample_env None) sample_clock (amp_body ''ann@example.org''))) =
        [1013]"
proof -
  have em: "isEmail (validator (sample_env None)) ''ann@example.org''"
    by (simp add: sample_env_def sample_validator_def)
  note t = C10_escape_after_length_check [OF em, of sample_clock]
  have s: "map mail_subject (sends (post_contact (sample_env None) sample_clock (amp_body ''ann@example.org''))) =
        [''New Contact: '' @ concat (replicate 200 ''&amp;'')]"
    using t by blast
  have "all_fields_pass (validator (sample_env None)) (amp_body ''ann@example.org'')"
    using t by blast
  moreover have "map (length \<circ> mail_subject)
      (sends (post_contact (sample_env None) sample_clock (amp_body ''ann@example.org''))) = [1013]"
    unfolding map_map [symmetric] s by (simp add: length_amp_entities)
  ultimately show ?thesis
    using em s by simp
qed

end
